theory Spec2Isabelle
  imports Main "HOL-Library.AList" "HOL-Library.Char_ord" "HOL-Library.List_Lexorder"
begin

section \<open>Python strings\<close>

text \<open>
  The notebook \<^verbatim>\<open>mscp-notebook.py\<close> works on Python strings. They are modelled as
  \<^typ>\<open>string\<close>; text outside ASCII (the warning sign of the \<^verbatim>\<open>main\<close> label) is held as its
  UTF-8 bytes, which keeps substring tests and the code point order of \<^verbatim>\<open>sorted\<close>.
  Case mapping and white space are those of ASCII.
\<close>

definition startswith :: "string \<Rightarrow> string \<Rightarrow> bool" where
  "startswith s p = (take (length p) s = p)"

text \<open>\<^verbatim>\<open>x in s\<close> for two strings.\<close>

fun contains :: "string \<Rightarrow> string \<Rightarrow> bool" where
  "contains [] x = (x = [])"
| "contains (c # cs) x = (startswith (c # cs) x \<or> contains cs x)"

text \<open>\<^verbatim>\<open>s.replace(old, new)\<close>: every non-overlapping occurrence, from the left.\<close>

function replace :: "string \<Rightarrow> string \<Rightarrow> string \<Rightarrow> string" where
  "replace [] old new = (if old = [] then new else [])"
| "replace (c # cs) old new =
     (if old = [] then new @ c # replace cs old new
      else if startswith (c # cs) old then new @ replace (drop (length old) (c # cs)) old new
      else c # replace cs old new)"
  by pat_completeness auto
termination
  by (relation "measure (\<lambda>(s, old, new). length s)") auto

definition is_upper :: "char \<Rightarrow> bool" where
  "is_upper c = (CHR ''A'' \<le> c \<and> c \<le> CHR ''Z'')"

definition is_lower :: "char \<Rightarrow> bool" where
  "is_lower c = (CHR ''a'' \<le> c \<and> c \<le> CHR ''z'')"

definition to_upper :: "char \<Rightarrow> char" where
  "to_upper c = (if is_lower c then char_of (of_char c - (32::nat)) else c)"

definition to_lower :: "char \<Rightarrow> char" where
  "to_lower c = (if is_upper c then char_of (of_char c + (32::nat)) else c)"

definition upper :: "string \<Rightarrow> string" where
  "upper s = map to_upper s"

definition lower :: "string \<Rightarrow> string" where
  "lower s = map to_lower s"

text \<open>
  \<^verbatim>\<open>s.title()\<close>: a cased character is upper-cased when the character before it is not
  cased and lower-cased when it is; every other character is kept. The flag is
  "the previous character is cased".
\<close>

fun title_from :: "bool \<Rightarrow> string \<Rightarrow> string" where
  "title_from prev [] = []"
| "title_from prev (c # cs) =
     (if prev then to_lower c else to_upper c) # title_from (is_upper c \<or> is_lower c) cs"

definition title :: "string \<Rightarrow> string" where
  "title s = title_from False s"

text \<open>\<^verbatim>\<open>s.strip()\<close> removes the white space at both ends.\<close>

definition is_space :: "char \<Rightarrow> bool" where
  "is_space c = (c = CHR '' '' \<or> (CHR 0x09 \<le> c \<and> c \<le> CHR 0x0D) \<or> (CHR 0x1C \<le> c \<and> c \<le> CHR 0x1F))"

definition strip :: "string \<Rightarrow> string" where
  "strip s = rev (dropWhile is_space (rev (dropWhile is_space s)))"

text \<open>\<^verbatim>\<open>str(n)\<close> for an integer, as an f-string prints a return code.\<close>

fun str_nat :: "nat \<Rightarrow> string" where
  "str_nat n = (if n < 10 then [char_of (48 + n)] else str_nat (n div 10) @ [char_of (48 + n mod 10)])"

definition str_int :: "int \<Rightarrow> string" where
  "str_int i = (if i < 0 then ''-'' @ str_nat (nat (- i)) else str_nat (nat i))"

section \<open>Subprocesses\<close>

text \<open>
  \<^verbatim>\<open>subprocess.run(argv, capture_output=True, text=True, ...)\<close> either returns a
  completed process (return code, stdout, stderr) or raises. An exception carries the
  text that \<^verbatim>\<open>str(e)\<close> gives. The outside world is a function from the command line
  to what running it does; every cell below returns, next to its value, the list of the
  command lines it ran, in order.
\<close>

type_synonym argv = "string list"

datatype exn = TimeoutExpired string | FileNotFoundError string | OtherException string

fun str_exn :: "exn \<Rightarrow> string" where
  "str_exn (TimeoutExpired m) = m"
| "str_exn (FileNotFoundError m) = m"
| "str_exn (OtherException m) = m"

datatype run_result = Completed int string string | Raised exn

type_synonym runner = "argv \<Rightarrow> run_result"

section \<open>The sync cell\<close>

definition remote_url :: string where
  "remote_url = ''https://github.com/usnistgov/macos_security.git''"

definition git_rev_parse :: argv where
  "git_rev_parse = [''git'', ''rev-parse'', ''--abbrev-ref'', ''HEAD'']"

definition git_clone :: "string \<Rightarrow> string \<Rightarrow> argv" where
  "git_clone bv p = [''git'', ''clone'', ''--depth'', ''1'', ''-b'', bv, remote_url, p]"

definition git_set_branches :: "string \<Rightarrow> argv" where
  "git_set_branches bv = [''git'', ''remote'', ''set-branches'', ''--add'', ''origin'', bv]"

definition git_fetch :: "string \<Rightarrow> argv" where
  "git_fetch bv = [''git'', ''fetch'', ''--depth'', ''1'', ''origin'', bv]"

definition git_checkout :: "string \<Rightarrow> argv" where
  "git_checkout bv = [''git'', ''checkout'', bv]"

definition git_pull :: argv where
  "git_pull = [''git'', ''pull'', ''--ff-only'']"

text \<open>
  Lines 197 to 209: \<^verbatim>\<open>_current_branch\<close> starts as \<^verbatim>\<open>None\<close>; a completed
  \<^verbatim>\<open>git rev-parse\<close> sets it to the stripped stdout when the return code is 0 and to
  \<^verbatim>\<open>None\<close> otherwise; the bare \<^verbatim>\<open>except\<close> leaves it \<^verbatim>\<open>None\<close>.
\<close>

fun current_branch :: "run_result \<Rightarrow> string option" where
  "current_branch (Completed rc out err) = (if rc = 0 then Some (strip out) else None)"
| "current_branch (Raised e) = None"

text \<open>
  Line 211: \<^verbatim>\<open>_needs_switch = _current_branch and _current_branch != branch.value\<close>, read
  for its truth value by the \<^verbatim>\<open>elif\<close>: \<^verbatim>\<open>None\<close> and the empty string are false.
\<close>

fun needs_switch :: "string option \<Rightarrow> string \<Rightarrow> bool" where
  "needs_switch None bv = False"
| "needs_switch (Some cb) bv = (cb \<noteq> [] \<and> cb \<noteq> bv)"

datatype action = Clone | Switch | Pull

text \<open>Lines 213 to 231.\<close>

definition clone_action :: "runner \<Rightarrow> string \<Rightarrow> string \<Rightarrow> string \<times> argv list" where
  "clone_action run bv p =
     (let out0 = ''Cloning mSCP ('' @ bv @ '')...\<newline>\<newline>'' in
      case run (git_clone bv p) of
        Completed rc out err \<Rightarrow>
          (out0 @ out @ err @
             (if rc = 0 then ''\<newline>\<newline>Ready: mSCP ('' @ bv @ '')'' else ''\<newline>\<newline>Clone failed.''),
           [git_clone bv p])
      | Raised (TimeoutExpired m) \<Rightarrow> (out0 @ ''Error: Clone timed out (2 min limit)'', [git_clone bv p])
      | Raised e \<Rightarrow> (out0 @ ''Error: '' @ str_exn e, [git_clone bv p]))"

text \<open>The two handlers of the switch branch, lines 266 to 269.\<close>

fun switch_handler :: "exn \<Rightarrow> string" where
  "switch_handler (TimeoutExpired m) = ''Error: Branch switch timed out''"
| "switch_handler e = ''Error: '' @ str_exn e"

text \<open>
  Lines 232 to 269. The three commands run inside one \<^verbatim>\<open>try\<close>; the result of
  \<^verbatim>\<open>git remote set-branches\<close> is overwritten by that of \<^verbatim>\<open>git fetch\<close> before it is read,
  and only the return code of \<^verbatim>\<open>git checkout\<close> is looked at.
\<close>

definition switch_action :: "runner \<Rightarrow> string \<Rightarrow> string \<Rightarrow> string \<times> argv list" where
  "switch_action run cb bv =
     (let out0 = ''Switching from '' @ cb @ '' to '' @ bv @ ''...\<newline>\<newline>'' in
      case run (git_set_branches bv) of
        Raised e \<Rightarrow> (out0 @ switch_handler e, [git_set_branches bv])
      | Completed rc0 o0 e0 \<Rightarrow>
          (case run (git_fetch bv) of
             Raised e \<Rightarrow> (out0 @ switch_handler e, [git_set_branches bv, git_fetch bv])
           | Completed rc1 o1 e1 \<Rightarrow>
               (let out1 = out0 @ o1 @ e1 in
                case run (git_checkout bv) of
                  Raised e \<Rightarrow>
                    (out1 @ switch_handler e, [git_set_branches bv, git_fetch bv, git_checkout bv])
                | Completed rc2 o2 e2 \<Rightarrow>
                    (out1 @ o2 @ e2 @
                       (if rc2 = 0 then ''\<newline>\<newline>Switched to: mSCP ('' @ bv @ '')''
                        else ''\<newline>\<newline>Switch failed.''),
                     [git_set_branches bv, git_fetch bv, git_checkout bv]))))"

text \<open>Lines 270 to 284: the return code of \<^verbatim>\<open>git pull\<close> is not read.\<close>

definition pull_action :: "runner \<Rightarrow> string \<Rightarrow> string \<times> argv list" where
  "pull_action run bv =
     (let out0 = ''Already on '' @ bv @ ''. Updating...\<newline>\<newline>'' in
      case run git_pull of
        Completed rc out err \<Rightarrow> (out0 @ out @ err @ ''\<newline>\<newline>Repository up to date.'', [git_pull])
      | Raised e \<Rightarrow> (out0 @ ''Error updating: '' @ str_exn e, [git_pull]))"

text \<open>
  The cell, lines 189 to 288. Its inputs are the value of the run button, whether
  \<^verbatim>\<open>_path\<close> exists, \<^verbatim>\<open>str(_path)\<close> and \<^verbatim>\<open>branch.value\<close>. The result holds the text
  shown, the exported \<^verbatim>\<open>sync_complete\<close>, and two observations of the run: the branch of
  the \<^verbatim>\<open>if\<close>/\<^verbatim>\<open>elif\<close>/\<^verbatim>\<open>else\<close> that was taken and the commands that were run.
\<close>

record sync_result =
  output_text :: string
  sync_complete :: bool
  performed :: "action option"
  commands :: "argv list"

definition sync_cell :: "runner \<Rightarrow> bool \<Rightarrow> bool \<Rightarrow> string \<Rightarrow> string \<Rightarrow> sync_result" where
  "sync_cell run button path_exists p bv =
     (if button then
        (let needs_clone = \<not> path_exists;
             probe = (if \<not> needs_clone then [git_rev_parse] else []);
             cur = (if \<not> needs_clone then current_branch (run git_rev_parse) else None)
         in
           if needs_clone then
             (case clone_action run bv p of (out, cmds) \<Rightarrow>
                \<lparr>output_text = out, sync_complete = button, performed = Some Clone, commands = probe @ cmds\<rparr>)
           else if needs_switch cur bv then
             (case switch_action run (the cur) bv of (out, cmds) \<Rightarrow>
                \<lparr>output_text = out, sync_complete = button, performed = Some Switch, commands = probe @ cmds\<rparr>)
           else
             (case pull_action run bv of (out, cmds) \<Rightarrow>
                \<lparr>output_text = out, sync_complete = button, performed = Some Pull, commands = probe @ cmds\<rparr>))
      else \<lparr>output_text = [], sync_complete = button, performed = None, commands = []\<rparr>)"

section \<open>Scenarios\<close>

text \<open>
  A scenario fixes what each command does; a command the table does not list cannot be
  started (\<^verbatim>\<open>subprocess.run\<close> raises \<^verbatim>\<open>FileNotFoundError\<close>).
\<close>

definition scenario :: "(argv \<times> run_result) list \<Rightarrow> runner" where
  "scenario tbl a = (case map_of tbl a of Some r \<Rightarrow> r | None \<Rightarrow> Raised (FileNotFoundError ''No such file or directory''))"

text \<open>The clone on \<^verbatim>\<open>sequoia\<close> into \<^verbatim>\<open>macos_security\<close> exceeds its two minutes.\<close>

definition clone_times_out :: runner where
  "clone_times_out = scenario
     [(git_clone ''sequoia'' ''macos_security'', Raised (TimeoutExpired ''timed out after 120 seconds''))]"

text \<open>The same clone cannot reach the remote and exits with 128.\<close>

definition clone_exits_128 :: runner where
  "clone_exits_128 = scenario
     [(git_clone ''sequoia'' ''macos_security'',
       Completed 128 [] ''fatal: unable to access the remote'')]"

text \<open>The directory exists but is not a git work tree: \<^verbatim>\<open>rev-parse\<close> exits with 128.\<close>

definition not_a_work_tree :: runner where
  "not_a_work_tree = scenario
     [(git_rev_parse, Completed 128 [] ''fatal: not a git repository''),
      (git_pull, Completed 128 [] ''fatal: not a git repository'')]"

text \<open>
  A clone on \<^verbatim>\<open>sonoma\<close>, asked for \<^verbatim>\<open>sequoia\<close>: registering the branch prints a warning,
  the fetch fails with 128, the checkout fails with 1.
\<close>

definition fetch_fails :: runner where
  "fetch_fails = scenario
     [(git_rev_parse, Completed 0 ''sonoma\<newline>'' []),
      (git_set_branches ''sequoia'', Completed 0 [] ''warning: registered''),
      (git_fetch ''sequoia'', Completed 128 [] ''fatal: no remote ref''),
      (git_checkout ''sequoia'', Completed 1 [] ''error: pathspec unknown'')]"

text \<open>A clone on \<^verbatim>\<open>sonoma\<close>, asked for \<^verbatim>\<open>sequoia\<close>: the fetch exceeds its minute.\<close>

definition fetch_times_out :: runner where
  "fetch_times_out = scenario
     [(git_rev_parse, Completed 0 ''sonoma\<newline>'' []),
      (git_set_branches ''sequoia'', Completed 0 [] []),
      (git_fetch ''sequoia'', Raised (TimeoutExpired ''timed out after 60 seconds''))]"

text \<open>A clone on \<^verbatim>\<open>sequoia\<close> whose history has diverged: the pull exits with 128.\<close>

definition pull_not_ff :: runner where
  "pull_not_ff = scenario
     [(git_rev_parse, Completed 0 ''sequoia\<newline>'' []),
      (git_pull, Completed 128 [] ''fatal: Not possible to fast-forward, aborting.'')]"

text \<open>
  The index of a clone on \<^verbatim>\<open>sonoma\<close> is damaged: \<^verbatim>\<open>rev-parse\<close> prints the branch and
  exits with 1; the pull finds nothing new.
\<close>

definition rev_parse_fails_on_sonoma :: runner where
  "rev_parse_fails_on_sonoma = scenario
     [(git_rev_parse, Completed 1 ''sonoma\<newline>'' ''error: index file corrupt''),
      (git_pull, Completed 0 ''Already up to date.\<newline>'' [])]"

text \<open>
  A clone on \<^verbatim>\<open>sonoma\<close>, asked for \<^verbatim>\<open>sequoia\<close>: all three commands succeed, and
  registering the branch prints a warning.
\<close>

definition switch_with_warning :: runner where
  "switch_with_warning = scenario
     [(git_rev_parse, Completed 0 ''sonoma\<newline>'' []),
      (git_set_branches ''sequoia'', Completed 0 [] ''warning: registered''),
      (git_fetch ''sequoia'', Completed 0 [] ''From github.com''),
      (git_checkout ''sequoia'', Completed 0 ''Switched to branch'' [])]"

text \<open>No \<^verbatim>\<open>git\<close> is installed: no command can be started.\<close>

definition git_missing :: runner where
  "git_missing = scenario []"

text \<open>A clone on \<^verbatim>\<open>sonoma\<close>, asked for \<^verbatim>\<open>sequoia\<close>: the checkout exceeds its thirty seconds.\<close>

definition checkout_times_out :: runner where
  "checkout_times_out = scenario
     [(git_rev_parse, Completed 0 ''sonoma\<newline>'' []),
      (git_set_branches ''sequoia'', Completed 0 [] []),
      (git_fetch ''sequoia'', Completed 0 [] ''From github.com''),
      (git_checkout ''sequoia'', Raised (TimeoutExpired ''timed out after 30 seconds''))]"

section \<open>The action table of the specification\<close>

text \<open>
  The specification's table: no path gives Clone; a path and a current branch other than
  the desired one gives Switch; a path and the desired branch gives Pull.
\<close>

definition spec_action :: "bool \<Rightarrow> bool \<Rightarrow> action" where
  "spec_action path_exists branch_match =
     (if \<not> path_exists then Clone else if \<not> branch_match then Switch else Pull)"

section \<open>The branch cell\<close>

text \<open>
  \<^verbatim>\<open>s.split(sep)\<close> for a non-empty separator: the pieces between the occurrences of the
  separator, from the left; the result is never empty. The accumulator holds the piece
  being read, reversed.
\<close>

function split_from :: "string \<Rightarrow> string \<Rightarrow> string \<Rightarrow> string list" where
  "split_from sep acc [] = [rev acc]"
| "split_from sep acc (c # cs) =
     (if sep \<noteq> [] \<and> startswith (c # cs) sep
      then rev acc # split_from sep [] (drop (length sep) (c # cs))
      else split_from sep (c # acc) cs)"
  by pat_completeness auto
termination
  by (relation "measure (\<lambda>(sep, acc, s). length s)") auto

definition split :: "string \<Rightarrow> string \<Rightarrow> string list" where
  "split s sep = split_from sep [] s"

definition git_ls_remote :: argv where
  "git_ls_remote = [''git'', ''ls-remote'', ''--heads'', remote_url]"

text \<open>
  Lines 80 to 97, \<^verbatim>\<open>_get_github_branches\<close>: the branch names of the remote, sorted; the
  empty list when the command exits non-zero or raises.
\<close>

definition get_github_branches :: "runner \<Rightarrow> string list" where
  "get_github_branches run =
     (case run git_ls_remote of
        Completed rc out err \<Rightarrow>
          (if rc = 0
           then sort (map (\<lambda>line. last (split line ''refs/heads/''))
                        (filter (\<lambda>line. line \<noteq> []) (split (strip out) ''\<newline>'')))
           else [])
      | Raised e \<Rightarrow> [])"

text \<open>
  Lines 103 to 118, \<^verbatim>\<open>_platform_map\<close>. The label of \<^verbatim>\<open>main\<close> begins with a warning sign
  and a variation selector (U+26A0, U+FE0F), held here as their UTF-8 bytes.
\<close>

definition platform_map :: "(string \<times> string) list" where
  "platform_map =
     [(''tahoe'', ''macOS 26 Tahoe''),
      (''sequoia'', ''macOS 15 Sequoia''),
      (''sonoma'', ''macOS 14 Sonoma''),
      (''ventura'', ''macOS 13 Ventura''),
      (''monterey'', ''macOS 12 Monterey''),
      (''big_sur'', ''macOS 11 Big Sur''),
      (''catalina'', ''macOS 10.15 Catalina''),
      (''ios_26'', ''iOS/iPadOS 26''),
      (''ios_18'', ''iOS/iPadOS 18''),
      (''ios_17'', ''iOS/iPadOS 17''),
      (''ios_16'', ''iOS/iPadOS 16''),
      (''visionos_26'', ''visionOS 26''),
      (''visionos_2'', ''visionOS 2''),
      (''main'', [CHR 0xE2, CHR 0x9A, CHR 0xA0, CHR 0xEF, CHR 0xB8, CHR 0x8F] @
                 '' main (development - not recommended)'')]"

text \<open>Line 124: \<^verbatim>\<open>_b.startswith(("dev", "nist-", "505-"))\<close>.\<close>

definition dev_prefix :: "string \<Rightarrow> bool" where
  "dev_prefix b = list_ex (startswith b) [''dev'', ''nist-'', ''505-'']"

text \<open>Line 126: \<^verbatim>\<open>any(x in _b for x in ["_fix", "_typo", "create-"])\<close>.\<close>

definition fix_marker :: "string \<Rightarrow> bool" where
  "fix_marker b = list_ex (contains b) [''_fix'', ''_typo'', ''create-'']"

text \<open>
  Lines 121 to 127. \<^verbatim>\<open>_branch_display\<close> is a dictionary from label to branch name; as a
  list of pairs in insertion order, \<^verbatim>\<open>d[k] = v\<close> is \<^const>\<open>AList.update\<close>: an existing key
  keeps its place and takes the new value, a new key goes to the end.
\<close>

fun branch_loop :: "string list \<Rightarrow> (string \<times> string) list \<Rightarrow> (string \<times> string) list" where
  "branch_loop [] d = d"
| "branch_loop (b # bs) d =
     branch_loop bs
       (case map_of platform_map b of
          Some label \<Rightarrow> AList.update label b d
        | None \<Rightarrow>
            if \<not> dev_prefix b then
              (if \<not> fix_marker b then AList.update b b d else d)
            else d)"

text \<open>Lines 130 to 135: the fallback when nothing was kept.\<close>

definition branch_fallback :: "(string \<times> string) list" where
  "branch_fallback =
     [(''macOS 26 Tahoe'', ''tahoe''), (''macOS 15 Sequoia'', ''sequoia''), (''iOS 26'', ''ios_26'')]"

definition branch_display :: "string list \<Rightarrow> (string \<times> string) list" where
  "branch_display raw_branches =
     (let d = branch_loop raw_branches [] in if d = [] then branch_fallback else d)"

text \<open>Lines 138 to 140: the label selected at the start.\<close>

definition branch_default :: "(string \<times> string) list \<Rightarrow> string" where
  "branch_default d =
     (if ''macOS 26 Tahoe'' \<in> fst ` set d then ''macOS 26 Tahoe''
      else if ''macOS 15 Sequoia'' \<in> fst ` set d then ''macOS 15 Sequoia''
      else hd (map fst d))"

text \<open>The cell, lines 77 to 147: the options of the dropdown and its first value.\<close>

definition branch_cell :: "runner \<Rightarrow> (string \<times> string) list \<times> string" where
  "branch_cell run =
     (let d = branch_display (get_github_branches run) in (d, branch_default d))"

text \<open>
  A line of \<^verbatim>\<open>git ls-remote --heads\<close>: an object name, a tab and the reference; then a
  listing of the remote with platform, development and repair branches.
\<close>

definition ls_remote_line :: "string \<Rightarrow> string" where
  "ls_remote_line name = ''5f0c3a'' @ [CHR 0x09] @ ''refs/heads/'' @ name @ ''\<newline>''"

definition sample_ls_remote :: runner where
  "sample_ls_remote = scenario
     [(git_ls_remote, Completed 0
        (concat (map ls_remote_line
           [''sequoia'', ''dev_tahoe'', ''tahoe'', ''nist-800'', ''sonoma_typo'', ''gh-pages''])) [])]"

text \<open>No label and no branch name of a dictionary matches an exclusion pattern.\<close>

definition clean :: "(string \<times> string) list \<Rightarrow> bool" where
  "clean d = (\<forall>(k, v) \<in> set d. \<not> dev_prefix k \<and> \<not> fix_marker k \<and> \<not> dev_prefix v \<and> \<not> fix_marker v)"

section \<open>The baseline cell\<close>

definition endswith :: "string \<Rightarrow> string \<Rightarrow> bool" where
  "endswith s suf = (length suf \<le> length s \<and> drop (length s - length suf) s = suf)"

text \<open>\<^verbatim>\<open>s.rfind(c)\<close> for a character: the last index of it, \<^verbatim>\<open>-1\<close> when there is none.\<close>

definition rfind :: "string \<Rightarrow> char \<Rightarrow> int" where
  "rfind s c =
     (if c \<in> set s then int (length s) - 1 - int (length (takeWhile (\<lambda>x. x \<noteq> c) (rev s))) else - 1)"

text \<open>
  \<^verbatim>\<open>PurePath.stem\<close> of Python 3.12, on the final component: the name up to its last dot,
  unless that dot is the first or the last character of the name.
\<close>

definition stem :: "string \<Rightarrow> string" where
  "stem name =
     (let i = rfind name CHR ''.'' in
      if 0 < i \<and> i < int (length name) - 1 then take (nat i) name else name)"

text \<open>
  \<^verbatim>\<open>_path.glob("*.yaml")\<close> over the names of a directory: a name matches when it ends in
  \<^verbatim>\<open>.yaml\<close> (the star also matches nothing, and names that begin with a dot).
\<close>

definition glob_yaml :: "string list \<Rightarrow> string list" where
  "glob_yaml names = filter (\<lambda>n. endswith n ''.yaml'') names"

text \<open>Lines 315 to 340: the display name of a baseline, from the stem of its file.\<close>

definition baseline_display :: "string \<Rightarrow> string" where
  "baseline_display name =
     (let display = replace (replace name ''_'' '' '') ''-'' '' '' in
      if contains (lower name) ''byod'' then
        ''CIS '' @ title (replace (replace display ''cis '' []) ''byod'' ''BYOD'')
      else if contains (lower name) ''enterprise'' then
        ''CIS '' @ title (replace (replace display ''cis '' []) ''enterprise'' ''Enterprise'')
      else if contains (lower name) ''indigo'' then
        ''Indigo '' @ title (replace display ''indigo '' [])
      else if contains (lower name) ''cis'' then
        ''CIS '' @ title (replace display ''cis '' [])
      else if contains name ''800-53'' then
        ''NIST '' @ upper name
      else if contains name ''800-171'' then
        ''NIST SP 800-171''
      else if contains (lower name) ''cmmc'' then
        ''CMMC '' @ title (replace display ''cmmc '' [])
      else if contains (lower name) ''cnssi'' then
        replace (upper name) ''_'' '' ''
      else if contains (lower name) ''all_rules'' then
        ''All Rules (complete)''
      else title display)"

text \<open>
  Lines 314 to 341: the loop over the sorted files; \<^verbatim>\<open>_baselines[_display] = _name\<close> is
  \<^const>\<open>AList.update\<close> on the dictionary.
\<close>

fun baseline_loop :: "string list \<Rightarrow> (string \<times> string) list \<Rightarrow> (string \<times> string) list" where
  "baseline_loop [] d = d"
| "baseline_loop (f # fs) d =
     baseline_loop fs (AList.update (baseline_display (stem f)) (stem f) d)"

text \<open>Lines 343 to 350: the fallback when the dictionary is empty.\<close>

definition baseline_fallback :: "(string \<times> string) list" where
  "baseline_fallback =
     [(''CIS Level 1'', ''cis_lvl1''),
      (''CIS Level 2'', ''cis_lvl2''),
      (''NIST 800-53r5 Low'', ''800-53r5_low''),
      (''NIST 800-53r5 Moderate'', ''800-53r5_moderate''),
      (''NIST 800-53r5 High'', ''800-53r5_high'')]"

text \<open>
  Lines 310 to 341, the scan: the directory \<^verbatim>\<open>baselines\<close> is given by the names in it,
  \<^const>\<open>None\<close> when it does not exist.
\<close>

definition scan_baselines :: "string list option \<Rightarrow> (string \<times> string) list" where
  "scan_baselines dir =
     (case dir of
        None \<Rightarrow> []
      | Some names \<Rightarrow> baseline_loop (sort (glob_yaml names)) [])"

text \<open>The cell, lines 304 to 357: the options of the dropdown and its first value.\<close>

definition baseline_cell :: "string list option \<Rightarrow> (string \<times> string) list \<times> string" where
  "baseline_cell dir =
     (let found = scan_baselines dir;
          baselines = (if found = [] then baseline_fallback else found)
      in (baselines, hd (map fst baselines)))"

text \<open>
  Of the files of a directory shown under a label, the one that sorts last.
\<close>

definition last_shown_as :: "string list \<Rightarrow> string \<Rightarrow> string" where
  "last_shown_as names label =
     last (filter (\<lambda>h. baseline_display (stem h) = label) (sort (glob_yaml names)))"

text \<open>Every entry of a dictionary of baselines maps the display name of a stem to that stem.\<close>

definition labelled :: "(string \<times> string) list \<Rightarrow> bool" where
  "labelled d = list_all (\<lambda>(k, v). k = baseline_display v) d"

text \<open>A directory with two revisions of the 800-171 baseline.\<close>

definition two_revisions :: "string list" where
  "two_revisions = [''cis_lvl1.yaml'', ''800-171_rev3.yaml'', ''README.md'', ''800-171.yaml'']"

section \<open>The generate cell\<close>

text \<open>
  What the cell can ask the file system: whether \<^verbatim>\<open>_path\<close> exists, whether
  \<^verbatim>\<open>scripts/generate_guidance.py\<close> exists under it, and whether a file exists under it
  at a relative path. The cell returns the questions it asked, in order.
\<close>

record files =
  path_found :: bool
  script_found :: bool
  file_found :: "string \<Rightarrow> bool"

datatype probe = PathExists | ScriptExists | FileExists string

text \<open>Lines 436 to 444: the flags of the four checkboxes, in this order.\<close>

definition build_flags :: "bool \<Rightarrow> bool \<Rightarrow> bool \<Rightarrow> bool \<Rightarrow> string list" where
  "build_flags profiles scripts ddm guidance =
     (if profiles then [''-p''] else []) @ (if scripts then [''-s''] else []) @
     (if ddm then [''-D''] else []) @ (if guidance then [''-g''] else [])"

definition uv_command :: "string list \<Rightarrow> string \<Rightarrow> argv" where
  "uv_command flags baseline_file =
     [''uv'', ''run'', ''--with-requirements'', ''requirements.txt'',
      ''python'', ''scripts/generate_guidance.py''] @ flags @ [baseline_file]"

record generate_result =
  shown :: string
  probes :: "probe list"
  started :: "argv list"

text \<open>
  The cell, lines 423 to 485. Its inputs are the value of the run button, \<^verbatim>\<open>str(_path)\<close>,
  \<^verbatim>\<open>baseline.value\<close> and the four checkboxes.
\<close>

definition generate_cell ::
  "runner \<Rightarrow> files \<Rightarrow> bool \<Rightarrow> string \<Rightarrow> string \<Rightarrow> bool \<Rightarrow> bool \<Rightarrow> bool \<Rightarrow> bool \<Rightarrow> generate_result" where
  "generate_cell run fs button p baseline profiles scripts ddm guidance =
     (if button then
        (if \<not> path_found fs then
           \<lparr>shown = ''Error: mSCP repository not found at '' @ p @
                     ''\<newline>Clone it first using the button above.'',
            probes = [PathExists], started = []\<rparr>
         else if \<not> script_found fs then
           \<lparr>shown = ''Error: generate_guidance.py not found. Is this a valid mSCP repository?'',
            probes = [PathExists, ScriptExists], started = []\<rparr>
         else
           (let flags = build_flags profiles scripts ddm guidance in
            if flags = [] then
              \<lparr>shown = ''Error: Select at least one output type (profiles, scripts, etc.)'',
               probes = [PathExists, ScriptExists], started = []\<rparr>
            else
              (let baseline_file = ''baselines/'' @ baseline @ ''.yaml'' in
               if \<not> file_found fs baseline_file then
                 \<lparr>shown = ''Error: Baseline file not found: '' @ baseline_file,
                  probes = [PathExists, ScriptExists, FileExists baseline_file], started = []\<rparr>
               else
                 (let cmd = uv_command flags baseline_file in
                  \<lparr>shown =
                     (case run cmd of
                        Completed rc out err \<Rightarrow>
                          out @ err @
                          (if rc = 0 then
                             ''\<newline>\<newline>Generation complete! Output in: '' @ p @ ''/build/'' @ baseline @ ''/''
                           else ''\<newline>\<newline>Generation failed with exit code '' @ str_int rc)
                      | Raised (FileNotFoundError m) \<Rightarrow>
                          ''Error: uv not found. Install with: curl -LsSf https://astral.sh/uv/install.sh | sh''
                      | Raised (TimeoutExpired m) \<Rightarrow> ''Error: Generation timed out (5 min limit)''
                      | Raised e \<Rightarrow> ''Error: '' @ str_exn e),
                   probes = [PathExists, ScriptExists, FileExists baseline_file],
                   started = [cmd]\<rparr>))))
      else \<lparr>shown = [], probes = [], started = []\<rparr>)"

text \<open>No directory at the path; a clone without the baseline; a complete clone.\<close>

definition no_repository :: files where
  "no_repository = \<lparr>path_found = False, script_found = False, file_found = (\<lambda>f. False)\<rparr>"

definition clone_without_baseline :: files where
  "clone_without_baseline =
     \<lparr>path_found = True, script_found = True, file_found = (\<lambda>f. f = ''baselines/cis_lvl1.yaml'')\<rparr>"

definition directory_without_script :: files where
  "directory_without_script = \<lparr>path_found = True, script_found = False, file_found = (\<lambda>f. False)\<rparr>"

definition generator_fails :: runner where
  "generator_fails = scenario
     [(uv_command [''-p'', ''-s''] ''baselines/cis_lvl1.yaml'',
       Completed 2 ''Profile YAML:'' ''error: rule not found'')]"

section \<open>Properties of the sync cell\<close>

lemmas cmd_defs = git_rev_parse_def git_clone_def git_set_branches_def git_fetch_def
  git_checkout_def git_pull_def remote_url_def

lemmas scen_defs = scenario_def cmd_defs

lemma switch_action_commands:
  "snd (switch_action run cb bv) \<in>
     {[git_set_branches bv], [git_set_branches bv, git_fetch bv],
      [git_set_branches bv, git_fetch bv, git_checkout bv]}"
  by (simp add: switch_action_def Let_def split: run_result.splits)

lemma clone_action_commands: "snd (clone_action run bv p) = [git_clone bv p]"
  by (simp add: clone_action_def Let_def split: run_result.splits exn.splits)

lemma pull_action_commands: "snd (pull_action run bv) = [git_pull]"
  by (simp add: pull_action_def Let_def split: run_result.splits)

lemma sync_cell_clone:
  "sync_cell run True False p bv =
     \<lparr>output_text = fst (clone_action run bv p), sync_complete = True, performed = Some Clone,
      commands = snd (clone_action run bv p)\<rparr>"
  by (simp add: sync_cell_def split: prod.splits)

lemma sync_cell_switch:
  "needs_switch (current_branch (run git_rev_parse)) bv \<Longrightarrow>
   sync_cell run True True p bv =
     \<lparr>output_text = fst (switch_action run (the (current_branch (run git_rev_parse))) bv),
      sync_complete = True, performed = Some Switch,
      commands = git_rev_parse # snd (switch_action run (the (current_branch (run git_rev_parse))) bv)\<rparr>"
  by (simp add: sync_cell_def split: prod.splits)

lemma sync_cell_pull:
  "\<not> needs_switch (current_branch (run git_rev_parse)) bv \<Longrightarrow>
   sync_cell run True True p bv =
     \<lparr>output_text = fst (pull_action run bv), sync_complete = True, performed = Some Pull,
      commands = git_rev_parse # snd (pull_action run bv)\<rparr>"
  by (simp add: sync_cell_def split: prod.splits)

text \<open>
  C1, as amended. On every run of the cell with the button pressed exactly one action is
  performed: Clone when the path does not exist; Switch when the path exists and
  \<^verbatim>\<open>rev-parse\<close> gave a non-empty branch name other than the desired one; Pull when the
  path exists and the current branch is the desired one, is empty or could not be
  determined. Clone runs the clone command only, Switch begins with the branch
  registration and runs neither the clone nor the pull, Pull runs the pull only.
\<close>
theorem sync_action_selection:
  "(\<not> path_exists \<longrightarrow>
      performed (sync_cell run True path_exists p bv) = Some Clone \<and>
      commands (sync_cell run True path_exists p bv) = [git_clone bv p]) \<and>
   (path_exists \<and> current_branch (run git_rev_parse) = Some cb \<and> cb \<noteq> [] \<and> cb \<noteq> bv \<longrightarrow>
      performed (sync_cell run True path_exists p bv) = Some Switch \<and>
      take 2 (commands (sync_cell run True path_exists p bv)) = [git_rev_parse, git_set_branches bv] \<and>
      git_pull \<notin> set (commands (sync_cell run True path_exists p bv)) \<and>
      git_clone bv p \<notin> set (commands (sync_cell run True path_exists p bv))) \<and>
   (path_exists \<and> (current_branch (run git_rev_parse) = None \<or>
                    current_branch (run git_rev_parse) = Some [] \<or>
                    current_branch (run git_rev_parse) = Some bv) \<longrightarrow>
      performed (sync_cell run True path_exists p bv) = Some Pull \<and>
      commands (sync_cell run True path_exists p bv) = [git_rev_parse, git_pull])"
proof (intro conjI impI)
  assume "\<not> path_exists"
  then show "performed (sync_cell run True path_exists p bv) = Some Clone"
    and "commands (sync_cell run True path_exists p bv) = [git_clone bv p]"
    by (simp_all add: sync_cell_clone clone_action_commands)
next
  assume a: "path_exists \<and> current_branch (run git_rev_parse) = Some cb \<and> cb \<noteq> [] \<and> cb \<noteq> bv"
  then have ns: "needs_switch (current_branch (run git_rev_parse)) bv" by simp
  from a have ex: "path_exists = True" by simp
  have cell: "sync_cell run True True p bv =
     \<lparr>output_text = fst (switch_action run (the (current_branch (run git_rev_parse))) bv),
      sync_complete = True, performed = Some Switch,
      commands = git_rev_parse # snd (switch_action run (the (current_branch (run git_rev_parse))) bv)\<rparr>"
    using ns by (rule sync_cell_switch)
  have cmds: "snd (switch_action run cb bv) \<in>
     {[git_set_branches bv], [git_set_branches bv, git_fetch bv],
      [git_set_branches bv, git_fetch bv, git_checkout bv]}"
    by (rule switch_action_commands)
  show "performed (sync_cell run True path_exists p bv) = Some Switch"
    unfolding ex cell by simp
  show "take 2 (commands (sync_cell run True path_exists p bv)) = [git_rev_parse, git_set_branches bv]"
    unfolding ex cell using a cmds by auto
  show "git_pull \<notin> set (commands (sync_cell run True path_exists p bv))"
    unfolding ex cell using a cmds by (auto simp: cmd_defs)
  show "git_clone bv p \<notin> set (commands (sync_cell run True path_exists p bv))"
    unfolding ex cell using a cmds by (auto simp: cmd_defs)
next
  assume a: "path_exists \<and> (current_branch (run git_rev_parse) = None \<or>
                    current_branch (run git_rev_parse) = Some [] \<or>
                    current_branch (run git_rev_parse) = Some bv)"
  then have ns: "\<not> needs_switch (current_branch (run git_rev_parse)) bv" by auto
  from a have ex: "path_exists = True" by simp
  show "performed (sync_cell run True path_exists p bv) = Some Pull"
    and "commands (sync_cell run True path_exists p bv) = [git_rev_parse, git_pull]"
    unfolding ex using ns by (simp_all add: sync_cell_pull pull_action_commands)
qed

text \<open>C1, as amended, on a failing clone, a switch from sonoma and a pull on sequoia.\<close>
theorem sync_action_selection_witness:
  "performed (sync_cell clone_exits_128 True False ''macos_security'' ''sequoia'') = Some Clone \<and>
   performed (sync_cell fetch_times_out True True ''macos_security'' ''sequoia'') = Some Switch \<and>
   performed (sync_cell pull_not_ff True True ''macos_security'' ''sequoia'') = Some Pull"
proof -
  have 1: "performed (sync_cell clone_exits_128 True False ''macos_security'' ''sequoia'') = Some Clone"
    using sync_action_selection [where path_exists = False and run = clone_exits_128
        and p = "''macos_security''" and bv = "''sequoia''"] by simp
  have "current_branch (fetch_times_out git_rev_parse) = Some ''sonoma''"
    by (simp add: fetch_times_out_def scen_defs strip_def is_space_def)
  then have 2: "performed (sync_cell fetch_times_out True True ''macos_security'' ''sequoia'') = Some Switch"
    using sync_action_selection [where path_exists = True and run = fetch_times_out
        and cb = "''sonoma''" and p = "''macos_security''" and bv = "''sequoia''"] by simp
  have "current_branch (pull_not_ff git_rev_parse) = Some ''sequoia''"
    by (simp add: pull_not_ff_def scen_defs strip_def is_space_def)
  then have 3: "performed (sync_cell pull_not_ff True True ''macos_security'' ''sequoia'') = Some Pull"
    using sync_action_selection [where path_exists = True and run = pull_not_ff
        and p = "''macos_security''" and bv = "''sequoia''"] by simp
  from 1 2 3 show ?thesis by simp
qed

text \<open>
  C1 as stated fails: in a directory that is not a work tree the current branch is not
  the desired \<^verbatim>\<open>sequoia\<close>, the table of the specification asks for Switch, and the cell
  pulls.
\<close>
theorem sync_action_selection_counterexample:
  "current_branch (not_a_work_tree git_rev_parse) \<noteq> Some ''sequoia'' \<and>
   spec_action True (current_branch (not_a_work_tree git_rev_parse) = Some ''sequoia'') = Switch \<and>
   performed (sync_cell not_a_work_tree True True ''macos_security'' ''sequoia'') = Some Pull"
  by (simp add: sync_cell_def not_a_work_tree_def scen_defs pull_action_def spec_action_def)

text \<open>
  C2, as amended. On every run of the cell, whatever the action does, \<^verbatim>\<open>sync_complete\<close>
  is the value of the run button; two runs with the button pressed export the same
  value.
\<close>
theorem sync_complete_is_button:
  "sync_complete (sync_cell run button path_exists p bv) = button"
  by (simp add: sync_cell_def Let_def split: prod.splits)

text \<open>
  C2 as stated fails: a clone that times out and a clone that exits with 128, one after
  the other, export equal values of \<^verbatim>\<open>sync_complete\<close>.
\<close>
theorem sync_complete_not_fresh:
  "output_text (sync_cell clone_times_out True False ''macos_security'' ''sequoia'') =
     ''Cloning mSCP (sequoia)...\<newline>\<newline>Error: Clone timed out (2 min limit)'' \<and>
   output_text (sync_cell clone_exits_128 True False ''macos_security'' ''sequoia'') =
     ''Cloning mSCP (sequoia)...\<newline>\<newline>fatal: unable to access the remote\<newline>\<newline>Clone failed.'' \<and>
   sync_complete (sync_cell clone_times_out True False ''macos_security'' ''sequoia'') =
   sync_complete (sync_cell clone_exits_128 True False ''macos_security'' ''sequoia'')"
  by (simp add: sync_cell_def clone_action_def clone_times_out_def clone_exits_128_def scen_defs)

text \<open>
  C3 as stated fails: the fetch exits with 128 and the checkout is run after it.
\<close>
theorem checkout_after_failed_fetch:
  "fetch_fails (git_fetch ''sequoia'') = Completed 128 [] ''fatal: no remote ref'' \<and>
   commands (sync_cell fetch_fails True True ''macos_security'' ''sequoia'') =
     [git_rev_parse, git_set_branches ''sequoia'', git_fetch ''sequoia'', git_checkout ''sequoia'']"
  by (simp add: sync_cell_def switch_action_def fetch_fails_def scen_defs strip_def is_space_def)

text \<open>
  C3, as amended. A step that raises (a timeout or any other exception) ends its action
  at once: no later step is run, the text gathered so far is kept and the handler's
  message is appended. A non-zero exit of the clone, or of the checkout, is reported as
  a failure after the output of the steps. A non-zero exit of the branch registration or
  of the fetch does not end the Switch action: the checkout is run all the same.
\<close>
theorem raising_step_stops_action:
  "(run (git_clone bv p) = Raised e \<longrightarrow>
      clone_action run bv p =
        (''Cloning mSCP ('' @ bv @ '')...\<newline>\<newline>'' @
           (case e of TimeoutExpired m \<Rightarrow> ''Error: Clone timed out (2 min limit)''
            | _ \<Rightarrow> ''Error: '' @ str_exn e),
         [git_clone bv p])) \<and>
   (run (git_clone bv p) = Completed rc out err \<and> rc \<noteq> 0 \<longrightarrow>
      clone_action run bv p =
        (''Cloning mSCP ('' @ bv @ '')...\<newline>\<newline>'' @ out @ err @ ''\<newline>\<newline>Clone failed.'',
         [git_clone bv p])) \<and>
   (run (git_set_branches bv) = Raised e \<longrightarrow>
      switch_action run cb bv =
        (''Switching from '' @ cb @ '' to '' @ bv @ ''...\<newline>\<newline>'' @ switch_handler e,
         [git_set_branches bv])) \<and>
   (run (git_set_branches bv) = Completed rc_s out_s err_s \<and> run (git_fetch bv) = Raised e \<longrightarrow>
      switch_action run cb bv =
        (''Switching from '' @ cb @ '' to '' @ bv @ ''...\<newline>\<newline>'' @ switch_handler e,
         [git_set_branches bv, git_fetch bv])) \<and>
   (run (git_set_branches bv) = Completed rc_s out_s err_s \<and> run (git_fetch bv) = Completed rc_f out_f err_f \<and>
    run (git_checkout bv) = Raised e \<longrightarrow>
      switch_action run cb bv =
        (''Switching from '' @ cb @ '' to '' @ bv @ ''...\<newline>\<newline>'' @ out_f @ err_f @ switch_handler e,
         [git_set_branches bv, git_fetch bv, git_checkout bv])) \<and>
   (run (git_set_branches bv) = Completed rc_s out_s err_s \<and> run (git_fetch bv) = Completed rc_f out_f err_f \<and>
    run (git_checkout bv) = Completed rc out err \<and> rc \<noteq> 0 \<longrightarrow>
      switch_action run cb bv =
        (''Switching from '' @ cb @ '' to '' @ bv @ ''...\<newline>\<newline>'' @ out_f @ err_f @ out @ err @
           ''\<newline>\<newline>Switch failed.'',
         [git_set_branches bv, git_fetch bv, git_checkout bv])) \<and>
   (run (git_set_branches bv) = Completed rc_s out_s err_s \<and> run (git_fetch bv) = Completed rc_f out_f err_f \<longrightarrow>
      snd (switch_action run cb bv) = [git_set_branches bv, git_fetch bv, git_checkout bv]) \<and>
   (run git_pull = Raised e \<longrightarrow>
      pull_action run bv =
        (''Already on '' @ bv @ ''. Updating...\<newline>\<newline>'' @ ''Error updating: '' @ str_exn e,
         [git_pull]))"
  by (simp add: clone_action_def switch_action_def pull_action_def Let_def split: exn.splits run_result.splits)

text \<open>
  C3, as amended, on a clone that times out, a clone that exits with 128, a missing
  \<^verbatim>\<open>git\<close>, a fetch and a checkout that time out, and a fetch and a checkout that exit
  non-zero.
\<close>
theorem raising_step_stops_action_witness:
  "clone_action clone_times_out ''sequoia'' ''macos_security'' =
     (''Cloning mSCP (sequoia)...\<newline>\<newline>Error: Clone timed out (2 min limit)'',
      [git_clone ''sequoia'' ''macos_security'']) \<and>
   clone_action clone_exits_128 ''sequoia'' ''macos_security'' =
     (''Cloning mSCP (sequoia)...\<newline>\<newline>fatal: unable to access the remote\<newline>\<newline>Clone failed.'',
      [git_clone ''sequoia'' ''macos_security'']) \<and>
   switch_action git_missing ''sonoma'' ''sequoia'' =
     (''Switching from sonoma to sequoia...\<newline>\<newline>Error: No such file or directory'',
      [git_set_branches ''sequoia'']) \<and>
   switch_action fetch_times_out ''sonoma'' ''sequoia'' =
     (''Switching from sonoma to sequoia...\<newline>\<newline>Error: Branch switch timed out'',
      [git_set_branches ''sequoia'', git_fetch ''sequoia'']) \<and>
   switch_action checkout_times_out ''sonoma'' ''sequoia'' =
     (''Switching from sonoma to sequoia...\<newline>\<newline>From github.comError: Branch switch timed out'',
      [git_set_branches ''sequoia'', git_fetch ''sequoia'', git_checkout ''sequoia'']) \<and>
   switch_action fetch_fails ''sonoma'' ''sequoia'' =
     (''Switching from sonoma to sequoia...\<newline>\<newline>fatal: no remote referror: pathspec unknown\<newline>\<newline>Switch failed.'',
      [git_set_branches ''sequoia'', git_fetch ''sequoia'', git_checkout ''sequoia'']) \<and>
   pull_action git_missing ''sequoia'' =
     (''Already on sequoia. Updating...\<newline>\<newline>Error updating: No such file or directory'', [git_pull])"
proof -
  have c1: "clone_times_out (git_clone ''sequoia'' ''macos_security'') =
      Raised (TimeoutExpired ''timed out after 120 seconds'')"
    by (simp add: clone_times_out_def scen_defs)
  have c2: "clone_exits_128 (git_clone ''sequoia'' ''macos_security'') =
      Completed 128 [] ''fatal: unable to access the remote''"
    by (simp add: clone_exits_128_def scen_defs)
  have m1: "git_missing (git_set_branches ''sequoia'') = Raised (FileNotFoundError ''No such file or directory'')"
    and m2: "git_missing git_pull = Raised (FileNotFoundError ''No such file or directory'')"
    by (simp_all add: git_missing_def scen_defs)
  have f1: "fetch_times_out (git_set_branches ''sequoia'') = Completed 0 [] [] \<and>
        fetch_times_out (git_fetch ''sequoia'') = Raised (TimeoutExpired ''timed out after 60 seconds'')"
    by (simp add: fetch_times_out_def scen_defs)
  have k1: "checkout_times_out (git_set_branches ''sequoia'') = Completed 0 [] [] \<and>
        checkout_times_out (git_fetch ''sequoia'') = Completed 0 [] ''From github.com'' \<and>
        checkout_times_out (git_checkout ''sequoia'') = Raised (TimeoutExpired ''timed out after 30 seconds'')"
    by (simp add: checkout_times_out_def scen_defs)
  have x1: "fetch_fails (git_set_branches ''sequoia'') = Completed 0 [] ''warning: registered'' \<and>
        fetch_fails (git_fetch ''sequoia'') = Completed 128 [] ''fatal: no remote ref'' \<and>
        fetch_fails (git_checkout ''sequoia'') = Completed 1 [] ''error: pathspec unknown''"
    by (simp add: fetch_fails_def scen_defs)
  have 1: "clone_action clone_times_out ''sequoia'' ''macos_security'' =
     (''Cloning mSCP (sequoia)...\<newline>\<newline>Error: Clone timed out (2 min limit)'',
      [git_clone ''sequoia'' ''macos_security''])"
    using c1 raising_step_stops_action [where run = clone_times_out and bv = "''sequoia''"
      and p = "''macos_security''" and e = "TimeoutExpired ''timed out after 120 seconds''"]
    by simp
  have 2: "clone_action clone_exits_128 ''sequoia'' ''macos_security'' =
     (''Cloning mSCP (sequoia)...\<newline>\<newline>fatal: unable to access the remote\<newline>\<newline>Clone failed.'',
      [git_clone ''sequoia'' ''macos_security''])"
    using c2 raising_step_stops_action [where run = clone_exits_128 and bv = "''sequoia''"
      and p = "''macos_security''" and rc = 128 and out = "[]"
      and err = "''fatal: unable to access the remote''"]
    by simp
  have 3: "switch_action git_missing ''sonoma'' ''sequoia'' =
     (''Switching from sonoma to sequoia...\<newline>\<newline>Error: No such file or directory'',
      [git_set_branches ''sequoia''])"
    using m1 raising_step_stops_action [where run = git_missing and bv = "''sequoia''"
      and cb = "''sonoma''" and e = "FileNotFoundError ''No such file or directory''"]
    by simp
  have 4: "switch_action fetch_times_out ''sonoma'' ''sequoia'' =
     (''Switching from sonoma to sequoia...\<newline>\<newline>Error: Branch switch timed out'',
      [git_set_branches ''sequoia'', git_fetch ''sequoia''])"
    using f1 raising_step_stops_action [where run = fetch_times_out and bv = "''sequoia''"
      and cb = "''sonoma''" and e = "TimeoutExpired ''timed out after 60 seconds''"
      and rc_s = 0 and out_s = "[]" and err_s = "[]"]
    by simp
  have 5: "switch_action checkout_times_out ''sonoma'' ''sequoia'' =
     (''Switching from sonoma to sequoia...\<newline>\<newline>From github.comError: Branch switch timed out'',
      [git_set_branches ''sequoia'', git_fetch ''sequoia'', git_checkout ''sequoia''])"
    using k1 raising_step_stops_action [where run = checkout_times_out and bv = "''sequoia''"
      and cb = "''sonoma''" and e = "TimeoutExpired ''timed out after 30 seconds''"
      and rc_s = 0 and out_s = "[]" and err_s = "[]"
      and rc_f = 0 and out_f = "[]" and err_f = "''From github.com''"]
    by simp
  have 6: "switch_action fetch_fails ''sonoma'' ''sequoia'' =
     (''Switching from sonoma to sequoia...\<newline>\<newline>fatal: no remote referror: pathspec unknown\<newline>\<newline>Switch failed.'',
      [git_set_branches ''sequoia'', git_fetch ''sequoia'', git_checkout ''sequoia''])"
    using x1 raising_step_stops_action [where run = fetch_fails and bv = "''sequoia''"
      and cb = "''sonoma''"
      and rc_s = 0 and out_s = "[]" and err_s = "''warning: registered''"
      and rc_f = 128 and out_f = "[]" and err_f = "''fatal: no remote ref''"
      and rc = 1 and out = "[]" and err = "''error: pathspec unknown''"]
    by simp
  have 7: "pull_action git_missing ''sequoia'' =
     (''Already on sequoia. Updating...\<newline>\<newline>Error updating: No such file or directory'', [git_pull])"
    using m2 raising_step_stops_action [where run = git_missing and bv = "''sequoia''"
      and e = "FileNotFoundError ''No such file or directory''"]
    by simp
  from 1 2 3 4 5 6 7 show ?thesis by simp
qed

text \<open>
  C4. The log should hold the output of every command the action ran, the branch
  registration first. The cell runs the registration and loses what it printed: here its
  warning is nowhere in the text shown, which holds the fetch output and then the
  checkout output.
\<close>
theorem set_branches_output_dropped:
  "git_set_branches ''sequoia'' \<in> set (commands (sync_cell switch_with_warning True True ''macos_security'' ''sequoia'')) \<and>
   switch_with_warning (git_set_branches ''sequoia'') = Completed 0 [] ''warning: registered'' \<and>
   output_text (sync_cell switch_with_warning True True ''macos_security'' ''sequoia'') =
     ''Switching from sonoma to sequoia...\<newline>\<newline>From github.comSwitched to branch\<newline>\<newline>Switched to: mSCP (sequoia)'' \<and>
   \<not> contains (output_text (sync_cell switch_with_warning True True ''macos_security'' ''sequoia''))
        ''warning: registered''"
  by (simp add: sync_cell_def switch_action_def switch_with_warning_def scen_defs strip_def is_space_def startswith_def)

text \<open>
  C5. The pull is fast-forward only and is never forced, but its return code is not
  read: a pull that exits with 128 because the histories diverged is shown as
  "Repository up to date.".
\<close>
theorem failed_pull_reported_up_to_date:
  "pull_not_ff git_pull = Completed 128 [] ''fatal: Not possible to fast-forward, aborting.'' \<and>
   sync_cell pull_not_ff True True ''macos_security'' ''sequoia'' =
     \<lparr>output_text = ''Already on sequoia. Updating...\<newline>\<newline>fatal: Not possible to fast-forward, aborting.\<newline>\<newline>Repository up to date.'',
      sync_complete = True, performed = Some Pull, commands = [git_rev_parse, git_pull]\<rparr>"
  by (simp add: sync_cell_def pull_action_def pull_not_ff_def scen_defs strip_def is_space_def)

text \<open>
  C9. When the path exists and \<^verbatim>\<open>git rev-parse\<close> exits non-zero or raises, the cell
  performs Pull for every desired branch: the commands run are the probe and the pull,
  none of the Switch commands.
\<close>
theorem pull_when_branch_unknown:
  assumes "(\<exists>rc out err. run git_rev_parse = Completed rc out err \<and> rc \<noteq> 0) \<or>
           (\<exists>e. run git_rev_parse = Raised e)"
  shows "performed (sync_cell run True True p bv) = Some Pull \<and>
         commands (sync_cell run True True p bv) = [git_rev_parse, git_pull]"
proof -
  from assms have "current_branch (run git_rev_parse) = None" by auto
  then have "\<not> needs_switch (current_branch (run git_rev_parse)) bv" by simp
  then show ?thesis by (simp add: sync_cell_pull pull_action_commands)
qed

text \<open>
  C9 on a clone that sits on sonoma while sequoia is desired, where \<^verbatim>\<open>rev-parse\<close> exits
  with 1, and where \<^verbatim>\<open>git\<close> cannot be started.
\<close>
theorem pull_when_branch_unknown_witness:
  "rev_parse_fails_on_sonoma git_rev_parse = Completed 1 ''sonoma\<newline>'' ''error: index file corrupt'' \<and>
   performed (sync_cell rev_parse_fails_on_sonoma True True ''macos_security'' ''sequoia'') = Some Pull \<and>
   commands (sync_cell rev_parse_fails_on_sonoma True True ''macos_security'' ''sequoia'') =
     [git_rev_parse, git_pull] \<and>
   git_missing git_rev_parse = Raised (FileNotFoundError ''No such file or directory'') \<and>
   performed (sync_cell git_missing True True ''macos_security'' ''sequoia'') = Some Pull \<and>
   commands (sync_cell git_missing True True ''macos_security'' ''sequoia'') = [git_rev_parse, git_pull]"
proof -
  have h: "rev_parse_fails_on_sonoma git_rev_parse = Completed 1 ''sonoma\<newline>'' ''error: index file corrupt''"
    by (simp add: rev_parse_fails_on_sonoma_def scen_defs)
  then have h': "(\<exists>rc out err. rev_parse_fails_on_sonoma git_rev_parse = Completed rc out err \<and> rc \<noteq> 0) \<or>
           (\<exists>e. rev_parse_fails_on_sonoma git_rev_parse = Raised e)" by simp
  have m: "git_missing git_rev_parse = Raised (FileNotFoundError ''No such file or directory'')"
    by (simp add: git_missing_def scen_defs)
  then have m': "(\<exists>rc out err. git_missing git_rev_parse = Completed rc out err \<and> rc \<noteq> 0) \<or>
           (\<exists>e. git_missing git_rev_parse = Raised e)" by simp
  from pull_when_branch_unknown [where run = rev_parse_fails_on_sonoma
      and p = "''macos_security''" and bv = "''sequoia''", OF h']
    pull_when_branch_unknown [where run = git_missing
      and p = "''macos_security''" and bv = "''sequoia''", OF m'] h m
  show ?thesis by simp
qed

section \<open>Properties of the branch cell\<close>

lemma set_update_subset: "set (AList.update k v d) \<subseteq> insert (k, v) (set d)"
  by (induction d) auto

lemma clean_update:
  "clean d \<Longrightarrow> \<not> dev_prefix k \<Longrightarrow> \<not> fix_marker k \<Longrightarrow> \<not> dev_prefix v \<Longrightarrow> \<not> fix_marker v \<Longrightarrow>
   clean (AList.update k v d)"
  using set_update_subset [of k v d] by (auto simp: clean_def)

lemma platform_map_clean:
  "list_all (\<lambda>(n, l). \<not> dev_prefix n \<and> \<not> fix_marker n \<and> \<not> dev_prefix l \<and> \<not> fix_marker l) platform_map"
  by code_simp

lemma platform_label_clean:
  assumes "map_of platform_map b = Some l"
  shows "\<not> dev_prefix b \<and> \<not> fix_marker b \<and> \<not> dev_prefix l \<and> \<not> fix_marker l"
proof -
  from assms have "(b, l) \<in> set platform_map" by (rule map_of_SomeD)
  with platform_map_clean show ?thesis by (auto simp: list_all_iff)
qed

lemma branch_loop_clean: "clean d \<Longrightarrow> clean (branch_loop bs d)"
proof (induction bs arbitrary: d)
  case Nil
  then show ?case by simp
next
  case (Cons b bs)
  show ?case
  proof (cases "map_of platform_map b")
    case None
    with Cons show ?thesis by (auto intro: clean_update)
  next
    case (Some l)
    with Cons platform_label_clean [OF Some] show ?thesis by (auto intro: clean_update)
  qed
qed

lemma branch_fallback_clean: "clean branch_fallback"
  unfolding clean_def branch_fallback_def by code_simp

lemma branch_display_clean: "clean (branch_display raw_branches)"
  using branch_loop_clean [of "[]" raw_branches] branch_fallback_clean
  by (simp add: branch_display_def Let_def clean_def)

text \<open>
  C7. A branch name that starts with \<^verbatim>\<open>dev\<close>, \<^verbatim>\<open>nist-\<close> or \<^verbatim>\<open>505-\<close>, or that contains
  \<^verbatim>\<open>_fix\<close>, \<^verbatim>\<open>_typo\<close> or \<^verbatim>\<open>create-\<close>, is neither a branch name nor a label of the
  display mapping, for every list of remote branches and every answer of the remote.
  Nothing is assumed about the lookup table: none of its names matches a pattern.
\<close>
theorem excluded_branch_not_listed:
  assumes "startswith b ''dev'' \<or> startswith b ''nist-'' \<or> startswith b ''505-'' \<or>
           contains b ''_fix'' \<or> contains b ''_typo'' \<or> contains b ''create-''"
  shows "b \<notin> snd ` set (branch_display raw_branches) \<and>
         b \<notin> fst ` set (branch_display raw_branches) \<and>
         b \<notin> snd ` set (fst (branch_cell run)) \<and>
         b \<notin> fst ` set (fst (branch_cell run))"
proof -
  from assms have ex: "dev_prefix b \<or> fix_marker b"
    by (auto simp: dev_prefix_def fix_marker_def)
  have "\<And>raw. b \<notin> snd ` set (branch_display raw) \<and> b \<notin> fst ` set (branch_display raw)"
    using ex branch_display_clean by (fastforce simp: clean_def)
  then show ?thesis by (simp add: branch_cell_def Let_def)
qed

text \<open>C7 on the branches \<^verbatim>\<open>dev_tahoe\<close> and \<^verbatim>\<open>sonoma_typo\<close> of the sample listing.\<close>
theorem excluded_branch_not_listed_witness:
  "startswith ''dev_tahoe'' ''dev'' \<and> contains ''sonoma_typo'' ''_typo'' \<and>
   get_github_branches sample_ls_remote =
     [''dev_tahoe'', ''gh-pages'', ''nist-800'', ''sequoia'', ''sonoma_typo'', ''tahoe''] \<and>
   ''dev_tahoe'' \<notin> snd ` set (fst (branch_cell sample_ls_remote)) \<and>
   ''dev_tahoe'' \<notin> fst ` set (fst (branch_cell sample_ls_remote)) \<and>
   ''sonoma_typo'' \<notin> snd ` set (fst (branch_cell sample_ls_remote)) \<and>
   ''sonoma_typo'' \<notin> fst ` set (fst (branch_cell sample_ls_remote))"
proof -
  have h: "startswith ''dev_tahoe'' ''dev''" by (simp add: startswith_def)
  have k: "contains ''sonoma_typo'' ''_typo''" by (simp add: startswith_def)
  have g: "get_github_branches sample_ls_remote =
    [''dev_tahoe'', ''gh-pages'', ''nist-800'', ''sequoia'', ''sonoma_typo'', ''tahoe'']"
    by code_simp
  from h have h': "startswith ''dev_tahoe'' ''dev'' \<or> startswith ''dev_tahoe'' ''nist-'' \<or>
     startswith ''dev_tahoe'' ''505-'' \<or> contains ''dev_tahoe'' ''_fix'' \<or>
     contains ''dev_tahoe'' ''_typo'' \<or> contains ''dev_tahoe'' ''create-''" by simp
  from k have k': "startswith ''sonoma_typo'' ''dev'' \<or> startswith ''sonoma_typo'' ''nist-'' \<or>
     startswith ''sonoma_typo'' ''505-'' \<or> contains ''sonoma_typo'' ''_fix'' \<or>
     contains ''sonoma_typo'' ''_typo'' \<or> contains ''sonoma_typo'' ''create-''" by simp
  from excluded_branch_not_listed [OF h', where run = sample_ls_remote]
    excluded_branch_not_listed [OF k', where run = sample_ls_remote] h k g
  show ?thesis by simp
qed

section \<open>Properties of the baseline cell\<close>

text \<open>
  C6. The file \<^verbatim>\<open>800-53r5_low.yaml\<close> should be shown as "NIST 800-53r5 Low", as the
  fallback dictionary of the cell has it, and \<^verbatim>\<open>cis_lvl1_byod.yaml\<close> as
  "CIS Lvl1 BYOD". The cell upper-cases the whole stem of the first and title-cases the
  second after writing BYOD in capitals.
\<close>
theorem scenario_4_labels:
  "baseline_display (stem ''800-53r5_low.yaml'') = ''NIST 800-53R5_LOW'' \<and>
   baseline_display (stem ''cis_lvl1_byod.yaml'') = ''CIS Lvl1 Byod'' \<and>
   scan_baselines (Some [''cis_lvl1_byod.yaml'', ''800-53r5_low.yaml'']) =
     [(''NIST 800-53R5_LOW'', ''800-53r5_low''), (''CIS Lvl1 Byod'', ''cis_lvl1_byod'')]"
  by code_simp

text \<open>
  The rule for 800-171 is the sixth of the table: it gives its label to the names that
  contain \<^verbatim>\<open>800-171\<close> and that none of the five rules before it takes.
\<close>

lemma display_800_171:
  assumes "contains name ''800-171''"
    and "\<not> contains (lower name) ''byod''" and "\<not> contains (lower name) ''enterprise''"
    and "\<not> contains (lower name) ''indigo''" and "\<not> contains (lower name) ''cis''"
    and "\<not> contains name ''800-53''"
  shows "baseline_display name = ''NIST SP 800-171''"
  using assms by (simp add: baseline_display_def Let_def)

lemma map_of_baseline_loop:
  "map_of (baseline_loop fs d) L =
     (case filter (\<lambda>h. baseline_display (stem h) = L) fs of
        [] \<Rightarrow> map_of d L
      | x # xs \<Rightarrow> Some (stem (last (x # xs))))"
proof (induction fs arbitrary: d)
  case Nil
  then show ?case by simp
next
  case (Cons f fs)
  show ?case
    by (simp add: Cons.IH update_conv' split: list.splits)
qed

lemma distinct_baseline_loop:
  "distinct (map fst d) \<Longrightarrow> distinct (map fst (baseline_loop fs d))"
  by (induction fs arbitrary: d) (simp_all add: distinct_update)

lemma labelled_update:
  "labelled d \<Longrightarrow> labelled (AList.update (baseline_display v) v d)"
  by (induction d) (auto simp: labelled_def)

lemma labelled_baseline_loop: "labelled d \<Longrightarrow> labelled (baseline_loop fs d)"
  by (induction fs arbitrary: d) (simp_all add: labelled_update)

lemma only_entry:
  "distinct (map fst d) \<Longrightarrow> map_of d L = Some v \<Longrightarrow> filter (\<lambda>(k, v). k = L) d = [(L, v)]"
proof (induction d)
  case Nil
  then show ?case by simp
next
  case (Cons a d)
  obtain k w where a: "a = (k, w)" by (cases a)
  show ?case
  proof (cases "k = L")
    case True
    with Cons.prems a have "w = v" by simp
    moreover from Cons.prems a True have "L \<notin> fst ` set d" by simp
    then have "filter (\<lambda>(k, v). k = L) d = []"
      by (force simp: filter_empty_conv)
    ultimately show ?thesis using a True by simp
  next
    case False
    with Cons a show ?thesis by simp
  qed
qed

lemma sorted_last_greatest:
  "sorted xs \<Longrightarrow> x \<in> set xs \<Longrightarrow> x \<le> last xs"
  by (induction xs) (auto)

text \<open>
  C10. When two files of the baseline directory are shown under the same label, the
  dictionary of the scan has exactly one entry for that label, bound to the stem of the
  file that sorts last among the files with that label; that file is the later of the
  two or sorts after it. The stem of the earlier file is no value of the dictionary
  (unless it is also the stem of the last file, as for \<^verbatim>\<open>.yaml\<close> and \<^verbatim>\<open>.yaml.yaml\<close>),
  and the dropdown shows the dictionary of the scan.
\<close>
theorem colliding_labels_last_wins:
  assumes f1: "f1 \<in> set (glob_yaml names)" and f2: "f2 \<in> set (glob_yaml names)"
    and lt: "f1 < f2"
    and eq: "baseline_display (stem f1) = baseline_display (stem f2)"
  shows "f2 \<le> last_shown_as names (baseline_display (stem f1)) \<and>
         last_shown_as names (baseline_display (stem f1)) \<in> set (glob_yaml names) \<and>
         (\<forall>h \<in> set (glob_yaml names).
            baseline_display (stem h) = baseline_display (stem f1) \<longrightarrow>
            h \<le> last_shown_as names (baseline_display (stem f1))) \<and>
         filter (\<lambda>(k, v). k = baseline_display (stem f1)) (scan_baselines (Some names)) =
           [(baseline_display (stem f1), stem (last_shown_as names (baseline_display (stem f1))))] \<and>
         (stem f1 \<noteq> stem (last_shown_as names (baseline_display (stem f1))) \<longrightarrow>
            stem f1 \<notin> snd ` set (scan_baselines (Some names))) \<and>
         fst (baseline_cell (Some names)) = scan_baselines (Some names)"
proof -
  define L where "L = baseline_display (stem f1)"
  define fs where "fs = sort (glob_yaml names)"
  define xs where "xs = filter (\<lambda>h. baseline_display (stem h) = L) fs"
  define g where "g = last xs"
  have g_eq: "last_shown_as names L = g"
    by (simp add: last_shown_as_def g_def xs_def fs_def)
  have scan_eq: "scan_baselines (Some names) = baseline_loop fs []"
    by (simp add: scan_baselines_def fs_def)
  have set_fs: "set fs = set (glob_yaml names)" by (simp add: fs_def)
  have "sorted fs" by (simp add: fs_def)
  then have sorted_xs: "sorted xs" unfolding xs_def by (rule sorted_wrt_filter)
  have in_xs: "h \<in> set xs \<longleftrightarrow> h \<in> set (glob_yaml names) \<and> baseline_display (stem h) = L" for h
    by (auto simp: xs_def set_fs)
  from f2 eq have f2_xs: "f2 \<in> set xs" by (simp add: in_xs L_def)
  then have ne: "xs \<noteq> []" by auto
  then have "g \<in> set xs" by (simp add: g_def)
  then have g_in: "g \<in> set (glob_yaml names)" and g_label: "baseline_display (stem g) = L"
    by (simp_all add: in_xs)
  have greatest: "h \<le> g" if "h \<in> set xs" for h
    unfolding g_def using sorted_xs that by (rule sorted_last_greatest)
  have lookup: "map_of (scan_baselines (Some names)) L = Some (stem g)"
  proof -
    obtain y ys where "xs = y # ys" using ne by (cases xs) auto
    then show ?thesis
      unfolding scan_eq map_of_baseline_loop g_def
      by (simp add: xs_def [symmetric])
  qed
  have "distinct (map fst (scan_baselines (Some names)))"
    unfolding scan_eq by (rule distinct_baseline_loop) simp
  then have entry: "filter (\<lambda>(k, v). k = L) (scan_baselines (Some names)) = [(L, stem g)]"
    using lookup by (rule only_entry)
  have lab: "labelled (scan_baselines (Some names))"
    unfolding scan_eq by (rule labelled_baseline_loop) (simp add: labelled_def)
  have absent: "stem f1 \<notin> snd ` set (scan_baselines (Some names))" if diff: "stem f1 \<noteq> stem g"
  proof
    assume "stem f1 \<in> snd ` set (scan_baselines (Some names))"
    then obtain k where k: "(k, stem f1) \<in> set (scan_baselines (Some names))" by auto
    with lab have "k = L" by (auto simp: labelled_def list_all_iff L_def)
    with k have "(L, stem f1) \<in> set (filter (\<lambda>(k, v). k = L) (scan_baselines (Some names)))"
      by simp
    with entry have "stem f1 = stem g" by simp
    with diff show False by simp
  qed
  have "scan_baselines (Some names) \<noteq> []"
    using entry by auto
  then have cell: "fst (baseline_cell (Some names)) = scan_baselines (Some names)"
    by (simp add: baseline_cell_def Let_def)
  from greatest [OF f2_xs] g_in greatest entry absent cell
  show ?thesis unfolding g_eq [symmetric] L_def [symmetric]
    by (simp add: in_xs g_eq)
qed

text \<open>C10 on a directory with \<^verbatim>\<open>800-171.yaml\<close> and \<^verbatim>\<open>800-171_rev3.yaml\<close>.\<close>
theorem colliding_labels_last_wins_witness:
  "''800-171.yaml'' \<in> set (glob_yaml two_revisions) \<and>
   ''800-171_rev3.yaml'' \<in> set (glob_yaml two_revisions) \<and>
   ''800-171.yaml'' < ''800-171_rev3.yaml'' \<and>
   baseline_display (stem ''800-171.yaml'') = ''NIST SP 800-171'' \<and>
   baseline_display (stem ''800-171_rev3.yaml'') = ''NIST SP 800-171'' \<and>
   last_shown_as two_revisions ''NIST SP 800-171'' = ''800-171_rev3.yaml'' \<and>
   filter (\<lambda>(k, v). k = ''NIST SP 800-171'') (scan_baselines (Some two_revisions)) =
     [(''NIST SP 800-171'', ''800-171_rev3'')] \<and>
   ''800-171'' \<notin> snd ` set (scan_baselines (Some two_revisions))"
proof -
  have a: "''800-171.yaml'' \<in> set (glob_yaml two_revisions)" by code_simp
  have b: "''800-171_rev3.yaml'' \<in> set (glob_yaml two_revisions)" by code_simp
  have c: "''800-171.yaml'' < ''800-171_rev3.yaml''" by code_simp
  have d1: "baseline_display (stem ''800-171.yaml'') = ''NIST SP 800-171''" by code_simp
  have d2: "baseline_display (stem ''800-171_rev3.yaml'') = ''NIST SP 800-171''" by code_simp
  have e: "last_shown_as two_revisions ''NIST SP 800-171'' = ''800-171_rev3.yaml''" by code_simp
  have s1: "stem ''800-171.yaml'' = ''800-171''" by code_simp
  have s2: "stem ''800-171_rev3.yaml'' = ''800-171_rev3''" by code_simp
  from d1 d2 have d: "baseline_display (stem ''800-171.yaml'') = baseline_display (stem ''800-171_rev3.yaml'')"
    by simp
  from colliding_labels_last_wins [OF a b c d] a b c d1 d2 e s1 s2
  show ?thesis by simp
qed

section \<open>Properties of the generate cell\<close>

text \<open>
  C8. With the button pressed the cell asks, in this order, whether the repository path
  exists, whether the generator script exists, whether a flag is selected and whether the
  baseline file exists, and stops at the first that fails with its own message. For a
  path that does not exist the result is the repository error whatever the flags and the
  baseline are, and the file system was asked about the path only.
\<close>
theorem generate_preconditions_in_order:
  "(\<not> path_found fs \<longrightarrow>
      generate_cell run fs True p b profiles scripts ddm guidance =
        \<lparr>shown = ''Error: mSCP repository not found at '' @ p @
                  ''\<newline>Clone it first using the button above.'',
         probes = [PathExists], started = []\<rparr>) \<and>
   (path_found fs \<and> \<not> script_found fs \<longrightarrow>
      generate_cell run fs True p b profiles scripts ddm guidance =
        \<lparr>shown = ''Error: generate_guidance.py not found. Is this a valid mSCP repository?'',
         probes = [PathExists, ScriptExists], started = []\<rparr>) \<and>
   (path_found fs \<and> script_found fs \<and> \<not> (profiles \<or> scripts \<or> ddm \<or> guidance) \<longrightarrow>
      generate_cell run fs True p b profiles scripts ddm guidance =
        \<lparr>shown = ''Error: Select at least one output type (profiles, scripts, etc.)'',
         probes = [PathExists, ScriptExists], started = []\<rparr>) \<and>
   (path_found fs \<and> script_found fs \<and> (profiles \<or> scripts \<or> ddm \<or> guidance) \<and>
    \<not> file_found fs (''baselines/'' @ b @ ''.yaml'') \<longrightarrow>
      generate_cell run fs True p b profiles scripts ddm guidance =
        \<lparr>shown = ''Error: Baseline file not found: '' @ ''baselines/'' @ b @ ''.yaml'',
         probes = [PathExists, ScriptExists, FileExists (''baselines/'' @ b @ ''.yaml'')],
         started = []\<rparr>) \<and>
   (path_found fs \<and> script_found fs \<and> (profiles \<or> scripts \<or> ddm \<or> guidance) \<and>
    file_found fs (''baselines/'' @ b @ ''.yaml'') \<longrightarrow>
      probes (generate_cell run fs True p b profiles scripts ddm guidance) =
        [PathExists, ScriptExists, FileExists (''baselines/'' @ b @ ''.yaml'')] \<and>
      started (generate_cell run fs True p b profiles scripts ddm guidance) =
        [uv_command (build_flags profiles scripts ddm guidance) (''baselines/'' @ b @ ''.yaml'')])"
  by (simp add: generate_cell_def build_flags_def Let_def)

text \<open>
  C8 on a missing directory, a directory without the script, a clone with no flag
  selected, a clone without the baseline, and a clone with everything in place.
\<close>
theorem generate_preconditions_in_order_witness:
  "generate_cell generator_fails no_repository True ''macos_security'' ''missing'' False False False False =
     \<lparr>shown = ''Error: mSCP repository not found at macos_security\<newline>Clone it first using the button above.'',
      probes = [PathExists], started = []\<rparr> \<and>
   generate_cell generator_fails directory_without_script True ''macos_security'' ''missing'' False False False False =
     \<lparr>shown = ''Error: generate_guidance.py not found. Is this a valid mSCP repository?'',
      probes = [PathExists, ScriptExists], started = []\<rparr> \<and>
   generate_cell generator_fails clone_without_baseline True ''macos_security'' ''missing'' False False False False =
     \<lparr>shown = ''Error: Select at least one output type (profiles, scripts, etc.)'',
      probes = [PathExists, ScriptExists], started = []\<rparr> \<and>
   generate_cell generator_fails clone_without_baseline True ''macos_security'' ''missing'' True True False False =
     \<lparr>shown = ''Error: Baseline file not found: baselines/missing.yaml'',
      probes = [PathExists, ScriptExists, FileExists ''baselines/missing.yaml''], started = []\<rparr> \<and>
   started (generate_cell generator_fails clone_without_baseline True ''macos_security'' ''cis_lvl1'' True True False False) =
     [[''uv'', ''run'', ''--with-requirements'', ''requirements.txt'', ''python'',
       ''scripts/generate_guidance.py'', ''-p'', ''-s'', ''baselines/cis_lvl1.yaml'']]"
proof -
  have a: "\<not> path_found no_repository"
    by (simp add: no_repository_def)
  have b: "path_found directory_without_script \<and> \<not> script_found directory_without_script"
    by (simp add: directory_without_script_def)
  have c: "path_found clone_without_baseline \<and> script_found clone_without_baseline \<and>
           \<not> file_found clone_without_baseline (''baselines/'' @ ''missing'' @ ''.yaml'') \<and>
           file_found clone_without_baseline (''baselines/'' @ ''cis_lvl1'' @ ''.yaml'')"
    by (simp add: clone_without_baseline_def)
  have 1: "generate_cell generator_fails no_repository True ''macos_security'' ''missing'' False False False False =
     \<lparr>shown = ''Error: mSCP repository not found at macos_security\<newline>Clone it first using the button above.'',
      probes = [PathExists], started = []\<rparr>"
    using a generate_preconditions_in_order [where fs = no_repository and run = generator_fails
      and p = "''macos_security''" and b = "''missing''" and profiles = False and scripts = False
      and ddm = False and guidance = False]
    by simp
  have 2: "generate_cell generator_fails directory_without_script True ''macos_security'' ''missing'' False False False False =
     \<lparr>shown = ''Error: generate_guidance.py not found. Is this a valid mSCP repository?'',
      probes = [PathExists, ScriptExists], started = []\<rparr>"
    using b generate_preconditions_in_order [where fs = directory_without_script and run = generator_fails
      and p = "''macos_security''" and b = "''missing''" and profiles = False and scripts = False
      and ddm = False and guidance = False]
    by simp
  have 3: "generate_cell generator_fails clone_without_baseline True ''macos_security'' ''missing'' False False False False =
     \<lparr>shown = ''Error: Select at least one output type (profiles, scripts, etc.)'',
      probes = [PathExists, ScriptExists], started = []\<rparr>"
    using c generate_preconditions_in_order [where fs = clone_without_baseline and run = generator_fails
      and p = "''macos_security''" and b = "''missing''" and profiles = False and scripts = False
      and ddm = False and guidance = False]
    by simp
  have 4: "generate_cell generator_fails clone_without_baseline True ''macos_security'' ''missing'' True True False False =
     \<lparr>shown = ''Error: Baseline file not found: baselines/missing.yaml'',
      probes = [PathExists, ScriptExists, FileExists ''baselines/missing.yaml''], started = []\<rparr>"
    using c generate_preconditions_in_order [where fs = clone_without_baseline and run = generator_fails
      and p = "''macos_security''" and b = "''missing''" and profiles = True and scripts = True
      and ddm = False and guidance = False]
    by simp
  have 5: "started (generate_cell generator_fails clone_without_baseline True ''macos_security'' ''cis_lvl1'' True True False False) =
     [[''uv'', ''run'', ''--with-requirements'', ''requirements.txt'', ''python'',
       ''scripts/generate_guidance.py'', ''-p'', ''-s'', ''baselines/cis_lvl1.yaml'']]"
    using c generate_preconditions_in_order [where fs = clone_without_baseline and run = generator_fails
      and p = "''macos_security''" and b = "''cis_lvl1''" and profiles = True and scripts = True
      and ddm = False and guidance = False]
    by (simp add: uv_command_def build_flags_def)
  from 1 2 3 4 5 show ?thesis by simp
qed

end
